theory Spec2Isabelle
  imports Main "HOL-Library.Char_ord" "HOL-Library.List_Lexorder" "HOL-Library.AList"
begin

section \<open>Python values\<close>

text \<open>
  The feedback service of \<^verbatim>\<open>main.py\<close> reads documents whose fields hold arbitrary
  Python values, and applies to them only \<^verbatim>\<open>int(...)\<close>, \<^verbatim>\<open>str(...)\<close>,
  \<^verbatim>\<open>isinstance(..., datetime)\<close> and \<^verbatim>\<open>.isoformat()\<close>. An exception is a value
  of \<open>py_error\<close>; a computation that may raise returns \<open>py_error + 'a\<close>, the
  exception on the left.

  A Python string is the \<open>string\<close> of its UTF-8 bytes, so that a character of ASCII
  text is one \<open>char\<close>. The order on strings is the lexicographic order on the bytes,
  which on UTF-8 is the order of the code points, that is, how Python compares
  \<^verbatim>\<open>str\<close> values.
\<close>

datatype py_error =
    TypeError
  | ValueError
  | OverflowError
  | KeyError
  | HTTPException nat string
  | RequestValidationError

text \<open>
  A \<^verbatim>\<open>datetime.datetime\<close>: the calendar fields, and \<open>tzinfo\<close> as the offset from
  UTC in seconds (\<open>None\<close> for a naive value).
\<close>

record datetime =
  year :: nat
  month :: nat
  day :: nat
  hour :: nat
  minute :: nat
  second :: nat
  microsecond :: nat
  tzinfo :: "int option"

text \<open>
  \<open>PObject r s\<close> is any value of another type (a float, a list, an embedded
  document, an ObjectId, ...): \<open>r\<close> is what \<^verbatim>\<open>int(v)\<close> does on it and \<open>s\<close> is
  what \<^verbatim>\<open>str(v)\<close> does on it (the value returned, or the exception raised). It is not
  an instance of \<^verbatim>\<open>datetime\<close>.
\<close>

datatype pyval =
    PNone
  | PBool bool
  | PInt int
  | PStr string
  | PDatetime datetime
  | PObject "py_error + int" "py_error + string"

text \<open>
  The limit of CPython on conversions between \<^verbatim>\<open>int\<close> and decimal text
  (\<^verbatim>\<open>sys.get_int_max_str_digits()\<close>, 4300 unless configured otherwise): a conversion
  of more digits raises \<^verbatim>\<open>ValueError\<close>.
\<close>

definition max_str_digits :: nat where
  "max_str_digits = 4300"

subsection \<open>Decimal text of integers\<close>

fun digits :: "nat \<Rightarrow> string" where
  "digits n =
     (if n < 10 then [''0123456789'' ! n]
      else digits (n div 10) @ [''0123456789'' ! (n mod 10)])"

declare digits.simps [simp del]

definition str_int :: "int \<Rightarrow> string" where
  "str_int i = (if i < 0 then CHR ''-'' # digits (nat (- i)) else digits (nat i))"

text \<open>\<^verbatim>\<open>"%0wd" % n\<close>: at least \<open>w\<close> digits, padded with zeros on the left.\<close>

definition zero_pad :: "nat \<Rightarrow> nat \<Rightarrow> string" where
  "zero_pad w n = replicate (w - length (digits n)) CHR ''0'' @ digits n"

subsection \<open>\<^verbatim>\<open>datetime.isoformat\<close> and \<^verbatim>\<open>str\<close>\<close>

definition format_offset :: "int \<Rightarrow> string" where
  "format_offset off =
     (let a = nat \<bar>off\<bar>;
          hh = a div 3600;
          mm = (a mod 3600) div 60;
          ss = a mod 60
      in (if off < 0 then ''-'' else ''+'') @ zero_pad 2 hh @ '':'' @ zero_pad 2 mm @
         (if ss \<noteq> 0 then '':'' @ zero_pad 2 ss else ''''))"

definition isoformat_sep :: "char \<Rightarrow> datetime \<Rightarrow> string" where
  "isoformat_sep sep t =
     zero_pad 4 (year t) @ ''-'' @ zero_pad 2 (month t) @ ''-'' @ zero_pad 2 (day t) @
     [sep] @
     zero_pad 2 (hour t) @ '':'' @ zero_pad 2 (minute t) @ '':'' @ zero_pad 2 (second t) @
     (if microsecond t \<noteq> 0 then ''.'' @ zero_pad 6 (microsecond t) else '''') @
     (case tzinfo t of None \<Rightarrow> '''' | Some off \<Rightarrow> format_offset off)"

definition isoformat :: "datetime \<Rightarrow> string" where
  "isoformat t = isoformat_sep CHR ''T'' t"

text \<open>
  \<^verbatim>\<open>str(v)\<close>. An integer of more than \<open>max_str_digits\<close> digits is not converted.
\<close>

fun py_str :: "pyval \<Rightarrow> py_error + string" where
  "py_str PNone = Inr ''None''"
| "py_str (PBool b) = Inr (if b then ''True'' else ''False'')"
| "py_str (PInt i) = (if 10 ^ max_str_digits \<le> \<bar>i\<bar> then Inl ValueError else Inr (str_int i))"
| "py_str (PStr s) = Inr s"
| "py_str (PDatetime t) = Inr (isoformat_sep CHR '' '' t)"
| "py_str (PObject r s) = s"

subsection \<open>\<^verbatim>\<open>int(...)\<close>\<close>

text \<open>
  On a string, \<^verbatim>\<open>int\<close> works on the code points. Every code point from 127 on is
  first replaced: a Unicode space by an ASCII space, a Unicode decimal digit by the ASCII
  digit of its value, anything else by \<^verbatim>\<open>?\<close>. Then surrounding ASCII whitespace
  (codes 9 to 13 and 32) is stripped, and what remains must be an optional sign followed by
  decimal digits, where single underscores may stand between digits; anything else is a
  \<^verbatim>\<open>ValueError\<close>, and so is a text of more than \<open>max_str_digits\<close> digits.
\<close>

definition continuation :: "nat \<Rightarrow> bool" where
  "continuation b = (128 \<le> b \<and> b < 192)"

text \<open>The code points of a string, from its UTF-8 bytes; \<open>None\<close> when they are not UTF-8.\<close>

fun utf8_decode :: "nat list \<Rightarrow> nat list option" where
  "utf8_decode [] = Some []"
| "utf8_decode (b # bs) =
     (if b < 128 then map_option (Cons b) (utf8_decode bs)
      else if 192 \<le> b \<and> b < 224 then
        (case bs of
           c1 # r \<Rightarrow>
             if continuation c1
             then map_option (Cons ((b - 192) * 64 + (c1 - 128))) (utf8_decode r)
             else None
         | _ \<Rightarrow> None)
      else if 224 \<le> b \<and> b < 240 then
        (case bs of
           c1 # c2 # r \<Rightarrow>
             if continuation c1 \<and> continuation c2
             then map_option (Cons ((b - 224) * 4096 + (c1 - 128) * 64 + (c2 - 128)))
                    (utf8_decode r)
             else None
         | _ \<Rightarrow> None)
      else if 240 \<le> b \<and> b < 248 then
        (case bs of
           c1 # c2 # c3 # r \<Rightarrow>
             if continuation c1 \<and> continuation c2 \<and> continuation c3
             then map_option
                    (Cons ((b - 240) * 262144 + (c1 - 128) * 4096 + (c2 - 128) * 64 + (c3 - 128)))
                    (utf8_decode r)
             else None
         | _ \<Rightarrow> None)
      else None)"

text \<open>The Unicode spaces from code point 127 on.\<close>

definition unicode_space :: "nat \<Rightarrow> bool" where
  "unicode_space c =
     (c = 0x85 \<or> c = 0xA0 \<or> c = 0x1680 \<or> (0x2000 \<le> c \<and> c \<le> 0x200A) \<or>
      c = 0x2028 \<or> c = 0x2029 \<or> c = 0x202F \<or> c = 0x205F \<or> c = 0x3000)"

text \<open>
  The Unicode decimal digits beyond ASCII come in runs of ten, from the digit zero to the
  digit nine: these are the code points of the zeros (Unicode 14, the tables of
  CPython 3.11).
\<close>

definition decimal_zeros :: "nat list" where
  "decimal_zeros =
     [1632, 1776, 1984, 2406, 2534, 2662, 2790, 2918, 3046, 3174, 3302, 3430, 3558, 3664,
      3792, 3872, 4160, 4240, 6112, 6160, 6470, 6608, 6784, 6800, 6992, 7088, 7232, 7248,
      42528, 43216, 43264, 43472, 43504, 43600, 44016, 65296, 66720, 68912, 69734, 69872,
      69942, 70096, 70384, 70736, 70864, 71248, 71360, 71472, 71904, 72016, 72784, 73040,
      73120, 92768, 92864, 93008, 120782, 120792, 120802, 120812, 120822, 123200, 123632,
      125264, 130032]"

definition unicode_decimal :: "nat \<Rightarrow> nat option" where
  "unicode_decimal c =
     (case find (\<lambda>z. z \<le> c \<and> c < z + 10) decimal_zeros of
        None \<Rightarrow> None
      | Some z \<Rightarrow> Some (c - z))"

definition to_ascii :: "nat \<Rightarrow> nat" where
  "to_ascii c =
     (if c < 127 then c
      else if unicode_space c then 32
      else (case unicode_decimal c of Some d \<Rightarrow> 48 + d | None \<Rightarrow> 63))"

definition is_space :: "nat \<Rightarrow> bool" where
  "is_space n = ((9 \<le> n \<and> n \<le> 13) \<or> n = 32)"

definition is_digit :: "nat \<Rightarrow> bool" where
  "is_digit n = (48 \<le> n \<and> n \<le> 57)"

definition digit_val :: "nat \<Rightarrow> nat" where
  "digit_val n = n - 48"

definition strip :: "nat list \<Rightarrow> nat list" where
  "strip s = rev (dropWhile is_space (rev (dropWhile is_space s)))"

fun parse_digits :: "nat list \<Rightarrow> nat \<Rightarrow> nat option" where
  "parse_digits [] acc = Some acc"
| "parse_digits [c] acc = (if is_digit c then Some (10 * acc + digit_val c) else None)"
| "parse_digits (c # d # ds) acc =
     (if is_digit c then parse_digits (d # ds) (10 * acc + digit_val c)
      else if c = 95 \<and> is_digit d then parse_digits ds (10 * acc + digit_val d)
      else None)"

definition parse_nat :: "nat list \<Rightarrow> nat option" where
  "parse_nat s =
     (case s of
        [] \<Rightarrow> None
      | c # cs \<Rightarrow>
          if is_digit c \<and> length (filter is_digit s) \<le> max_str_digits
          then parse_digits cs (digit_val c) else None)"

text \<open>The code 45 is the minus sign, 43 the plus sign, 95 the underscore.\<close>

definition int_of_codes :: "nat list \<Rightarrow> py_error + int" where
  "int_of_codes cps =
     (case strip (map to_ascii cps) of
        [] \<Rightarrow> Inl ValueError
      | c # cs \<Rightarrow>
          if c = 45 then
            (case parse_nat cs of None \<Rightarrow> Inl ValueError | Some n \<Rightarrow> Inr (- int n))
          else if c = 43 then
            (case parse_nat cs of None \<Rightarrow> Inl ValueError | Some n \<Rightarrow> Inr (int n))
          else
            (case parse_nat (c # cs) of None \<Rightarrow> Inl ValueError | Some n \<Rightarrow> Inr (int n)))"

definition int_of_str :: "string \<Rightarrow> py_error + int" where
  "int_of_str s =
     (case utf8_decode (map of_char s) of
        None \<Rightarrow> Inl ValueError
      | Some cps \<Rightarrow> int_of_codes cps)"

fun py_int :: "pyval \<Rightarrow> py_error + int" where
  "py_int PNone = Inl TypeError"
| "py_int (PBool b) = Inr (if b then 1 else 0)"
| "py_int (PInt i) = Inr i"
| "py_int (PStr s) = int_of_str s"
| "py_int (PDatetime t) = Inl TypeError"
| "py_int (PObject r s) = r"

section \<open>Documents and the document store\<close>

text \<open>
  A document is a Python \<^verbatim>\<open>dict\<close> with string keys, kept as an association list;
  \<open>dict_get d k v\<close> is \<^verbatim>\<open>d.get(k, v)\<close>.
\<close>

type_synonym document = "(string \<times> pyval) list"

definition dict_get :: "document \<Rightarrow> string \<Rightarrow> pyval \<Rightarrow> pyval" where
  "dict_get d k dflt = (case map_of d k of None \<Rightarrow> dflt | Some v \<Rightarrow> v)"

text \<open>
  The database handle \<^verbatim>\<open>db\<close> of the \<^verbatim>\<open>database\<close> module is \<open>None\<close> when the
  connection is not configured; otherwise it gives, for each collection name, the
  documents stored there. The server state also records, in order, every call made to
  the store, so that "no read, write or delete was performed" can be stated.
\<close>

type_synonym collections = "string \<Rightarrow> document list"

datatype store_call =
    CreateDocument string document
  | GetDocuments string
  | DeleteMany string

record server =
  db :: "collections option"
  calls :: "store_call list"

text \<open>
  Modelled from the spec: \<^verbatim>\<open>create_document(collection, data)\<close> and
  \<^verbatim>\<open>get_documents(collection)\<close> of the \<^verbatim>\<open>database\<close> module, which is not among the
  sources. The specification describes them as the create and read operations of a
  document store on named collections: creating adds the record to the collection,
  reading returns the records of the collection. The handlers call them only when
  \<^verbatim>\<open>db\<close> is not \<open>None\<close>.
\<close>

definition create_document :: "string \<Rightarrow> document \<Rightarrow> server \<Rightarrow> server" where
  "create_document c data s =
     s\<lparr>db := map_option (\<lambda>cs. cs(c := cs c @ [data])) (db s),
       calls := calls s @ [CreateDocument c data]\<rparr>"

definition get_documents :: "string \<Rightarrow> server \<Rightarrow> document list \<times> server" where
  "get_documents c s =
     ((case db s of None \<Rightarrow> [] | Some cs \<Rightarrow> cs c),
      s\<lparr>calls := calls s @ [GetDocuments c]\<rparr>)"

text \<open>\<^verbatim>\<open>db[c].delete_many({})\<close>: every document of the collection is removed.\<close>

definition delete_many :: "string \<Rightarrow> server \<Rightarrow> server" where
  "delete_many c s =
     s\<lparr>db := map_option (\<lambda>cs. cs(c := [])) (db s),
       calls := calls s @ [DeleteMany c]\<rparr>"

section \<open>Vote ingestion\<close>

text \<open>
  The value of the \<^verbatim>\<open>score\<close> field of a request body, as the JSON parser gives it:
  \<open>JFloat m e\<close> is the float \<open>m * 2 ^ e\<close>, \<open>JNonFinite\<close> an infinity or a NaN.
\<close>

datatype json =
    JNull
  | JBool bool
  | JInt int
  | JFloat int int
  | JNonFinite
  | JStr string
  | JArray
  | JObject

text \<open>
  \<^verbatim>\<open>class VoteRequest(BaseModel): score: int = Field(..., ge=1, le=5)\<close>.
  The field is required, and pydantic validates it in its lax mode: besides an integer it
  accepts a boolean (as 0 or 1), a float without a fractional part and a string that it
  can read as an integer. How it reads a string (\<open>str_as_int\<close>) is not part of the
  source and depends on its version: it is a parameter, \<open>None\<close> for a string that is
  refused. Every failure is a validation error of the request.
\<close>

record VoteRequest =
  score :: int

definition float_as_int :: "int \<Rightarrow> int \<Rightarrow> int option" where
  "float_as_int m e =
     (if 0 \<le> e then Some (m * 2 ^ nat e)
      else if m mod 2 ^ nat (- e) = 0 then Some (m div 2 ^ nat (- e))
      else None)"

definition lax_int :: "(string \<Rightarrow> int option) \<Rightarrow> json \<Rightarrow> int option" where
  "lax_int str_as_int v =
     (case v of
        JInt n \<Rightarrow> Some n
      | JBool b \<Rightarrow> Some (if b then 1 else 0)
      | JFloat m e \<Rightarrow> float_as_int m e
      | JStr s \<Rightarrow> str_as_int s
      | _ \<Rightarrow> None)"

text \<open>The body's field is \<open>None\<close> when the body has no \<^verbatim>\<open>score\<close>.\<close>

definition VoteRequest_validate ::
    "(string \<Rightarrow> int option) \<Rightarrow> json option \<Rightarrow> py_error + VoteRequest" where
  "VoteRequest_validate str_as_int field =
     (case field of
        None \<Rightarrow> Inl RequestValidationError
      | Some v \<Rightarrow>
          (case lax_int str_as_int v of
             None \<Rightarrow> Inl RequestValidationError
           | Some n \<Rightarrow>
               if 1 \<le> n \<and> n \<le> 5 then Inr \<lparr>VoteRequest.score = n\<rparr>
               else Inl RequestValidationError))"

definition not_configured :: py_error where
  "not_configured = HTTPException 500 ''Database not configured''"

text \<open>
  \<^verbatim>\<open>submit_feedback(vote)\<close>; \<open>now\<close> is the value of
  \<^verbatim>\<open>datetime.now(timezone.utc)\<close>.
\<close>

definition submit_feedback ::
    "VoteRequest \<Rightarrow> datetime \<Rightarrow> server \<Rightarrow> (py_error + document) \<times> server" where
  "submit_feedback vote now s =
     (if db s = None then (Inl not_configured, s)
      else
        let data = [(''score'', PInt (VoteRequest.score vote)),
                    (''created_at'', PDatetime now),
                    (''updated_at'', PDatetime now)]
        in (Inr [(''ok'', PBool True), (''message'', PStr ''Thanks for your feedback!'')],
            create_document ''feedback'' data s))"

text \<open>
  \<^verbatim>\<open>POST /api/feedback\<close>: the framework validates the body against the request
  model and calls the handler only with a valid \<^verbatim>\<open>VoteRequest\<close>.
\<close>

definition post_feedback ::
    "(string \<Rightarrow> int option) \<Rightarrow> json option \<Rightarrow> datetime \<Rightarrow> server \<Rightarrow>
     (py_error + document) \<times> server" where
  "post_feedback str_as_int field now s =
     (case VoteRequest_validate str_as_int field of
        Inl e \<Rightarrow> (Inl e, s)
      | Inr vote \<Rightarrow> submit_feedback vote now s)"

section \<open>Statistics\<close>

record timeline_entry =
  timestamp :: string
  score :: int

record stats =
  counts :: "(string \<times> int) list"
  total_votes :: int
  total_score :: int
  timeline :: "timeline_entry list"

text \<open>
  The local variables of the loop of \<^verbatim>\<open>get_stats\<close>: \<^verbatim>\<open>counts\<close>,
  \<^verbatim>\<open>total_score\<close> and \<^verbatim>\<open>timeline\<close> (written \<open>counts_v\<close>, \<open>total_score_v\<close> and
  \<open>timeline_v\<close> below, the plain names being the fields of the returned dictionary).
\<close>

type_synonym loop_vars = "(string \<times> int) list \<times> int \<times> timeline_entry list"

text \<open>\<^verbatim>\<open>{str(i): 0 for i in range(1, 6)}\<close>\<close>

definition init_counts :: "(string \<times> int) list" where
  "init_counts = map (\<lambda>i. (str_int i, 0)) [1..5]"

text \<open>
  One iteration of \<^verbatim>\<open>for d in docs\<close>. \<^verbatim>\<open>counts[str(s)] += 1\<close> reads the entry
  first and raises \<^verbatim>\<open>KeyError\<close> when the key is absent; \<open>s\<close> is then between 1 and 5,
  so that \<^verbatim>\<open>str(s)\<close> is its decimal text. An exception of \<^verbatim>\<open>int\<close> or of
  \<^verbatim>\<open>str(ts)\<close> leaves the loop.
\<close>

definition loop_body :: "document \<Rightarrow> loop_vars \<Rightarrow> py_error + loop_vars" where
  "loop_body d vars =
     (case vars of (counts_v, total_score_v, timeline_v) \<Rightarrow>
        (case py_int (dict_get d ''score'' (PInt 0)) of
           Inl e \<Rightarrow> Inl e
         | Inr s \<Rightarrow>
             if 1 \<le> s \<and> s \<le> 5 then
               (case map_of counts_v (str_int s) of
                  None \<Rightarrow> Inl KeyError
                | Some c \<Rightarrow>
                    let counts' = AList.update (str_int s) (c + 1) counts_v;
                        total_score' = total_score_v + s;
                        ts = dict_get d ''created_at'' PNone
                    in (case (case ts of PDatetime t \<Rightarrow> Inr (isoformat t) | _ \<Rightarrow> py_str ts) of
                          Inl e \<Rightarrow> Inl e
                        | Inr ts_str \<Rightarrow>
                            Inr (counts', total_score',
                                 timeline_v @ [\<lparr>timestamp = ts_str, score = s\<rparr>])))
             else Inr (counts_v, total_score_v, timeline_v)))"

fun for_docs :: "document list \<Rightarrow> loop_vars \<Rightarrow> py_error + loop_vars" where
  "for_docs [] vars = Inr vars"
| "for_docs (d # ds) vars =
     (case loop_body d vars of Inl e \<Rightarrow> Inl e | Inr vars' \<Rightarrow> for_docs ds vars')"

text \<open>
  The aggregation of \<^verbatim>\<open>get_stats\<close> on the documents read, from the initialisation
  of the local variables to the returned dictionary. \<^verbatim>\<open>sorted\<close> is a stable sort, as
  \<open>sort_key\<close> is.
\<close>

definition aggregate :: "document list \<Rightarrow> py_error + stats" where
  "aggregate docs =
     (case for_docs docs (init_counts, 0, []) of
        Inl e \<Rightarrow> Inl e
      | Inr (counts_v, total_score_v, timeline_v) \<Rightarrow>
          Inr \<lparr>counts = counts_v,
               total_votes = sum_list (map snd counts_v),
               total_score = total_score_v,
               timeline = sort_key timestamp timeline_v\<rparr>)"

definition get_stats :: "server \<Rightarrow> (py_error + stats) \<times> server" where
  "get_stats s =
     (if db s = None then (Inl not_configured, s)
      else (case get_documents ''feedback'' s of (docs, s') \<Rightarrow> (aggregate docs, s')))"

section \<open>Administrative reset\<close>

definition reset_votes :: "server \<Rightarrow> (py_error + document) \<times> server" where
  "reset_votes s =
     (if db s = None then (Inl not_configured, s)
      else (Inr [(''ok'', PBool True)], delete_many ''feedback'' s))"

section \<open>Diagnostics\<close>




record diagnostics =
  backend :: string
  database :: string
  database_url :: "string option"
  database_name :: "string option"
  connection_status :: string
  collections :: "string list"






section \<open>Notions used in the statements\<close>

text \<open>
  The score of a record as the loop coerces it, \<^verbatim>\<open>int(d.get("score", 0))\<close>; whether
  the coercion returns; whether the record passes the range filter; the conversion of the
  timestamp of a record, and the timeline entry of a record that passes the filter.
\<close>

definition coerced_score :: "document \<Rightarrow> py_error + int" where
  "coerced_score d = py_int (dict_get d ''score'' (PInt 0))"

definition coercible :: "document \<Rightarrow> bool" where
  "coercible d = (case coerced_score d of Inl e \<Rightarrow> False | Inr s \<Rightarrow> True)"

definition passes_filter :: "document \<Rightarrow> bool" where
  "passes_filter d = (case coerced_score d of Inl e \<Rightarrow> False | Inr s \<Rightarrow> 1 \<le> s \<and> s \<le> 5)"

definition score_of :: "document \<Rightarrow> int" where
  "score_of d = (case coerced_score d of Inl e \<Rightarrow> 0 | Inr s \<Rightarrow> s)"

definition timestamp_of :: "document \<Rightarrow> py_error + string" where
  "timestamp_of d =
     (case dict_get d ''created_at'' PNone of
        PDatetime t \<Rightarrow> Inr (isoformat t)
      | v \<Rightarrow> py_str v)"

definition entry_of :: "document \<Rightarrow> timeline_entry" where
  "entry_of d =
     \<lparr>timestamp = (case timestamp_of d of Inl e \<Rightarrow> [] | Inr ts \<Rightarrow> ts), score = score_of d\<rparr>"

text \<open>
  The exception that the loop raises on a record, if any: the one of the coercion of its
  score or, for a record that passes the filter, the one of the conversion of its
  timestamp. A record is processable when there is none.
\<close>

definition record_error :: "document \<Rightarrow> py_error option" where
  "record_error d =
     (case coerced_score d of
        Inl e \<Rightarrow> Some e
      | Inr s \<Rightarrow>
          if 1 \<le> s \<and> s \<le> 5
          then (case timestamp_of d of Inl e \<Rightarrow> Some e | Inr ts \<Rightarrow> None)
          else None)"

definition processable :: "document \<Rightarrow> bool" where
  "processable d = (record_error d = None)"

text \<open>The number of records whose coerced score is \<open>i\<close>.\<close>

definition count_of :: "int \<Rightarrow> document list \<Rightarrow> int" where
  "count_of i docs = int (length (filter (\<lambda>d. coerced_score d = Inr i) docs))"

text \<open>The dictionary \<^verbatim>\<open>counts\<close> whose entry for \<^verbatim>\<open>str(i)\<close> is \<open>n i\<close>.\<close>

definition counts_dict :: "(int \<Rightarrow> int) \<Rightarrow> (string \<times> int) list" where
  "counts_dict n = map (\<lambda>i. (str_int i, n i)) [1..5]"

text \<open>The exception of the first record on which the loop raises.\<close>

fun first_error :: "document list \<Rightarrow> py_error option" where
  "first_error [] = None"
| "first_error (d # ds) =
     (case record_error d of Some e \<Rightarrow> Some e | None \<Rightarrow> first_error ds)"

text \<open>
  The record that \<^verbatim>\<open>submit_feedback\<close> stores for a vote of \<open>n\<close> at time
  \<open>now\<close>, and the acknowledgement it returns.
\<close>

definition vote_record :: "int \<Rightarrow> datetime \<Rightarrow> document" where
  "vote_record n now =
     [(''score'', PInt n), (''created_at'', PDatetime now), (''updated_at'', PDatetime now)]"

definition acknowledgement :: document where
  "acknowledgement = [(''ok'', PBool True), (''message'', PStr ''Thanks for your feedback!'')]"

section \<open>Example data\<close>

text \<open>
  A store whose \<^verbatim>\<open>feedback\<close> collection holds four records: a vote of 3 with a
  native timestamp, a vote stored as the text \<^verbatim>\<open>"5"\<close> with a text timestamp, a record
  without a score, and a record whose score 9 is out of range.
\<close>

definition example_time :: datetime where
  "example_time = \<lparr>year = 2024, month = 1, day = 15, hour = 10, minute = 30, second = 0,
                    microsecond = 0, tzinfo = Some 0\<rparr>"

definition example_docs :: "document list" where
  "example_docs =
     [[(''score'', PInt 3), (''created_at'', PDatetime example_time)],
      [(''score'', PStr ''5''), (''created_at'', PStr ''2024-01-01T09:00:00'')],
      [(''created_at'', PNone)],
      [(''score'', PInt 9), (''created_at'', PDatetime example_time)]]"

definition example_collections :: collections where
  "example_collections = (\<lambda>c. if c = ''feedback'' then example_docs else [])"

definition example_server :: server where
  "example_server = \<lparr>db = Some example_collections, calls = []\<rparr>"

definition example_stats :: stats where
  "example_stats =
     \<lparr>counts = [(''1'', 0), (''2'', 0), (''3'', 1), (''4'', 0), (''5'', 1)],
      total_votes = 2,
      total_score = 8,
      timeline = [\<lparr>timestamp = ''2024-01-01T09:00:00'', score = 5\<rparr>,
                  \<lparr>timestamp = ''2024-01-15T10:30:00+00:00'', score = 3\<rparr>]\<rparr>"

text \<open>A store that is configured and holds no record.\<close>

definition empty_server :: server where
  "empty_server = \<lparr>db = Some (\<lambda>c. []), calls = []\<rparr>"

text \<open>A server whose database handle is \<open>None\<close>.\<close>

definition unconfigured_server :: server where
  "unconfigured_server = \<lparr>db = None, calls = []\<rparr>"

text \<open>Three times of submission: \<open>time_b\<close> is the earliest, \<open>time_c\<close> the latest.\<close>

definition time_a :: datetime where
  "time_a = \<lparr>year = 2024, month = 3, day = 9, hour = 8, minute = 5, second = 7,
               microsecond = 0, tzinfo = Some 0\<rparr>"

definition time_b :: datetime where
  "time_b = \<lparr>year = 2024, month = 3, day = 9, hour = 8, minute = 5, second = 6,
               microsecond = 250000, tzinfo = Some 0\<rparr>"

definition time_c :: datetime where
  "time_c = \<lparr>year = 2024, month = 3, day = 10, hour = 0, minute = 0, second = 0,
               microsecond = 0, tzinfo = Some 0\<rparr>"

text \<open>
  A collection with a valid vote and a record whose score is the text \<^verbatim>\<open>"abc"\<close>.
\<close>

definition malformed_docs :: "document list" where
  "malformed_docs =
     [[(''score'', PInt 4), (''created_at'', PStr ''2024-01-01T09:00:00'')],
      [(''score'', PStr ''abc''), (''created_at'', PStr ''2024-01-02T09:00:00'')]]"

definition malformed_server :: server where
  "malformed_server = \<lparr>db = Some (\<lambda>c. malformed_docs), calls = []\<rparr>"




text \<open>
  A reading of strings as integers that reads \<^verbatim>\<open>"3"\<close> as 3, as pydantic does, and
  refuses every other string.
\<close>

definition example_reading :: "string \<Rightarrow> int option" where
  "example_reading s = (if s = ''3'' then Some 3 else None)"



section \<open>Properties\<close>

lemma digits_lt_10: "n < 10 \<Longrightarrow> digits n = [''0123456789'' ! n]"
  by (simp add: digits.simps)

subsection \<open>The loop of the aggregation\<close>

lemma upto_1_5: "[1..5] = [1, 2, 3, 4, 5::int]"
  by (simp add: upto_rec1)

lemma str_int_keys:
  "str_int 1 = ''1''" "str_int 2 = ''2''" "str_int 3 = ''3''" "str_int 4 = ''4''" "str_int 5 = ''5''"
  by (simp_all add: str_int_def digits_lt_10)

lemma counts_dict_explicit: "counts_dict n = [(''1'', n 1), (''2'', n 2), (''3'', n 3), (''4'', n 4), (''5'', n 5)]"
  by (simp add: counts_dict_def upto_1_5 str_int_keys)

lemma init_counts_eq: "init_counts = counts_dict (\<lambda>i. 0)"
  by (simp add: init_counts_def counts_dict_def)

lemma counts_dict_lookup: 
  assumes "1 \<le> s" and "s \<le> 5"
  shows "map_of (counts_dict n) (str_int s) = Some (n s)"
proof -
  consider "s = 1" | "s = 2" | "s = 3" | "s = 4" | "s = 5"
    using assms by arith
  then show ?thesis
    by cases (simp_all add: counts_dict_explicit str_int_keys)
qed

lemma counts_dict_update:
  assumes "1 \<le> s" and "s \<le> 5"
  shows "AList.update (str_int s) v (counts_dict n) = counts_dict (n(s := v))"
proof -
  consider "s = 1" | "s = 2" | "s = 3" | "s = 4" | "s = 5"
    using assms by arith
  then show ?thesis
    by cases (simp_all add: counts_dict_explicit str_int_keys)
qed

lemma loop_body_error: "coerced_score d = Inl e \<Longrightarrow> loop_body d vars = Inl e"
  by (simp add: loop_body_def coerced_score_def split: prod.splits)

lemma loop_body_skip:
  "coerced_score d = Inr s \<Longrightarrow> \<not> (1 \<le> s \<and> s \<le> 5) \<Longrightarrow> loop_body d vars = Inr vars"
  by (auto simp add: loop_body_def coerced_score_def split: prod.splits)

lemma ts_str_eq:
  "(case v of PDatetime t \<Rightarrow> Inr (isoformat t) | _ \<Rightarrow> py_str v) =
   (case v of PDatetime t \<Rightarrow> Inr (isoformat t) | w \<Rightarrow> py_str w)"
  by (cases v) simp_all

lemma loop_body_valid:
  assumes "coerced_score d = Inr s" and "1 \<le> s" and "s \<le> 5"
  shows "loop_body d (counts_dict n, t, tline) =
     (case timestamp_of d of
        Inl e \<Rightarrow> Inl e
      | Inr ts \<Rightarrow>
          Inr (counts_dict (n(s := n s + 1)), t + s, tline @ [\<lparr>timestamp = ts, score = s\<rparr>]))"
proof -
  have "py_int (dict_get d ''score'' (PInt 0)) = Inr s"
    using assms(1) by (simp add: coerced_score_def)
  moreover have "map_of (counts_dict n) (str_int s) = Some (n s)"
    using assms by (simp add: counts_dict_lookup)
  moreover have "AList.update (str_int s) (n s + 1) (counts_dict n) = counts_dict (n(s := n s + 1))"
    using assms by (simp add: counts_dict_update)
  ultimately show ?thesis
    using assms(2,3)
    by (simp add: loop_body_def Let_def timestamp_of_def ts_str_eq)
qed

lemma loop_body_count:
  assumes "coerced_score d = Inr s" and "1 \<le> s" and "s \<le> 5" and "timestamp_of d = Inr ts"
  shows "loop_body d (counts_dict n, t, tline) =
     Inr (counts_dict (n(s := n s + 1)), t + s, tline @ [entry_of d])"
  using assms by (simp add: loop_body_valid entry_of_def score_of_def)

lemma loop_body_timestamp_error:
  assumes "coerced_score d = Inr s" and "1 \<le> s" and "s \<le> 5" and "timestamp_of d = Inl e"
  shows "loop_body d (counts_dict n, t, tline) = Inl e"
  using assms by (simp add: loop_body_valid)

lemma count_of_Cons:
  "count_of i (d # ds) = (if coerced_score d = Inr i then 1 else 0) + count_of i ds"
  by (simp add: count_of_def)

lemma record_error_score: "coerced_score d = Inl e \<Longrightarrow> record_error d = Some e"
  by (simp add: record_error_def)

lemma record_error_skip:
  "coerced_score d = Inr s \<Longrightarrow> \<not> (1 \<le> s \<and> s \<le> 5) \<Longrightarrow> record_error d = None"
  by (auto simp add: record_error_def)

lemma record_error_timestamp:
  "coerced_score d = Inr s \<Longrightarrow> 1 \<le> s \<and> s \<le> 5 \<Longrightarrow> timestamp_of d = Inl e \<Longrightarrow>
   record_error d = Some e"
  by (simp add: record_error_def)

lemma record_error_valid:
  "coerced_score d = Inr s \<Longrightarrow> 1 \<le> s \<and> s \<le> 5 \<Longrightarrow> timestamp_of d = Inr ts \<Longrightarrow>
   record_error d = None"
  by (simp add: record_error_def)

lemma passes_filter_Inr: "coerced_score d = Inr s \<Longrightarrow> passes_filter d \<longleftrightarrow> 1 \<le> s \<and> s \<le> 5"
  by (simp add: passes_filter_def)

lemma passes_filter_Inl: "coerced_score d = Inl e \<Longrightarrow> \<not> passes_filter d"
  by (simp add: passes_filter_def)

lemma score_of_Inr: "coerced_score d = Inr s \<Longrightarrow> score_of d = s"
  by (simp add: score_of_def)

lemma for_docs_eq:
  "for_docs docs (counts_dict n, t, tline) =
     (case first_error docs of
        Some e \<Rightarrow> Inl e
      | None \<Rightarrow>
          Inr (counts_dict (\<lambda>i. n i + count_of i docs),
               t + sum_list (map score_of (filter passes_filter docs)),
               tline @ map entry_of (filter passes_filter docs)))"
proof (induction docs arbitrary: n t tline)
  case Nil
  show ?case by (simp add: count_of_def)
next
  case (Cons d ds)
  show ?case
  proof (cases "coerced_score d")
    case (Inl e)
    then show ?thesis by (simp add: loop_body_error record_error_score)
  next
    case (Inr s)
    show ?thesis
    proof (cases "1 \<le> s \<and> s \<le> 5")
      case True
      show ?thesis
      proof (cases "timestamp_of d")
        case (Inl e)
        with Inr True show ?thesis
          by (simp add: loop_body_timestamp_error record_error_timestamp)
      next
        case ts: (Inr ts)
        have fe: "first_error (d # ds) = first_error ds"
          using Inr True ts by (simp add: record_error_valid)
        have pf: "passes_filter d"
          using Inr True by (simp add: passes_filter_Inr)
        have sc: "score_of d = s"
          using Inr by (rule score_of_Inr)
        have "(\<lambda>i. (n(s := n s + 1)) i + count_of i ds) = (\<lambda>i. n i + count_of i (d # ds))"
          using Inr by (auto simp add: count_of_Cons fun_eq_iff)
        then have ceq: "counts_dict (\<lambda>i. (n(s := n s + 1)) i + count_of i ds) =
            counts_dict (\<lambda>i. n i + count_of i (d # ds))"
          by (rule arg_cong)
        have "for_docs (d # ds) (counts_dict n, t, tline) =
            for_docs ds (counts_dict (n(s := n s + 1)), t + s, tline @ [entry_of d])"
          using True Inr ts by (simp add: loop_body_count)
        also have "\<dots> =
           (case first_error ds of
              Some e \<Rightarrow> Inl e
            | None \<Rightarrow>
                Inr (counts_dict (\<lambda>i. (n(s := n s + 1)) i + count_of i ds),
                     t + s + sum_list (map score_of (filter passes_filter ds)),
                     (tline @ [entry_of d]) @ map entry_of (filter passes_filter ds)))"
          by (rule Cons.IH)
        also have "\<dots> =
           (case first_error (d # ds) of
              Some e \<Rightarrow> Inl e
            | None \<Rightarrow>
                Inr (counts_dict (\<lambda>i. n i + count_of i (d # ds)),
                     t + sum_list (map score_of (filter passes_filter (d # ds))),
                     tline @ map entry_of (filter passes_filter (d # ds))))"
          unfolding fe ceq using pf sc by (simp split: option.splits)
        finally show ?thesis .
      qed
    next
      case False
      have fe: "first_error (d # ds) = first_error ds"
        using Inr False by (simp add: record_error_skip)
      have pf: "\<not> passes_filter d"
        using Inr False by (simp add: passes_filter_Inr)
      have ceq: "counts_dict (\<lambda>i. n i + count_of i ds) = counts_dict (\<lambda>i. n i + count_of i (d # ds))"
        using Inr False by (auto simp add: counts_dict_explicit count_of_Cons)
      have "for_docs (d # ds) (counts_dict n, t, tline) = for_docs ds (counts_dict n, t, tline)"
        using False Inr by (simp add: loop_body_skip)
      also have "\<dots> =
         (case first_error ds of
            Some e \<Rightarrow> Inl e
          | None \<Rightarrow>
              Inr (counts_dict (\<lambda>i. n i + count_of i ds),
                   t + sum_list (map score_of (filter passes_filter ds)),
                   tline @ map entry_of (filter passes_filter ds)))"
        by (rule Cons.IH)
      also have "\<dots> =
         (case first_error (d # ds) of
            Some e \<Rightarrow> Inl e
          | None \<Rightarrow>
              Inr (counts_dict (\<lambda>i. n i + count_of i (d # ds)),
                   t + sum_list (map score_of (filter passes_filter (d # ds))),
                   tline @ map entry_of (filter passes_filter (d # ds))))"
        unfolding fe ceq using pf by (simp split: option.splits)
      finally show ?thesis .
    qed
  qed
qed

lemma sum_counts:
  "count_of 1 docs + count_of 2 docs + count_of 3 docs + count_of 4 docs + count_of 5 docs =
     int (length (filter passes_filter docs))"
proof (induction docs)
  case Nil
  show ?case by (simp add: count_of_def)
next
  case (Cons d ds)
  show ?case
  proof (cases "coerced_score d")
    case (Inl e)
    with Cons show ?thesis by (simp add: count_of_Cons passes_filter_Inl)
  next
    case (Inr s)
    show ?thesis
    proof (cases "1 \<le> s \<and> s \<le> 5")
      case True
      then have "s = 1 \<or> s = 2 \<or> s = 3 \<or> s = 4 \<or> s = 5" by arith
      with Cons Inr show ?thesis by (auto simp add: count_of_Cons passes_filter_Inr)
    next
      case False
      with Cons Inr show ?thesis by (auto simp add: count_of_Cons passes_filter_Inr)
    qed
  qed
qed

lemma sum_scores:
  "sum_list (map score_of (filter passes_filter docs)) =
     1 * count_of 1 docs + 2 * count_of 2 docs + 3 * count_of 3 docs + 4 * count_of 4 docs +
     5 * count_of 5 docs"
proof (induction docs)
  case Nil
  show ?case by (simp add: count_of_def)
next
  case (Cons d ds)
  show ?case
  proof (cases "coerced_score d")
    case (Inl e)
    with Cons show ?thesis by (simp add: count_of_Cons passes_filter_Inl)
  next
    case (Inr s)
    show ?thesis
    proof (cases "1 \<le> s \<and> s \<le> 5")
      case True
      then have "s = 1 \<or> s = 2 \<or> s = 3 \<or> s = 4 \<or> s = 5" by arith
      with Cons Inr show ?thesis
        by (auto simp add: count_of_Cons passes_filter_Inr score_of_Inr)
    next
      case False
      with Cons Inr show ?thesis by (auto simp add: count_of_Cons passes_filter_Inr)
    qed
  qed
qed

lemma first_error_None: "first_error docs = None \<longleftrightarrow> list_all processable docs"
  by (induction docs) (auto simp add: processable_def split: option.splits)

lemma processable_coercible: "processable d \<Longrightarrow> coercible d"
  by (cases "coerced_score d") (simp_all add: processable_def coercible_def record_error_def)

lemma aggregate_eq:
  "aggregate docs =
     (case first_error docs of
        Some e \<Rightarrow> Inl e
      | None \<Rightarrow>
          Inr \<lparr>counts = counts_dict (\<lambda>i. count_of i docs),
               total_votes = int (length (filter passes_filter docs)),
               total_score = sum_list (map score_of (filter passes_filter docs)),
               timeline = sort_key timestamp (map entry_of (filter passes_filter docs))\<rparr>)"
proof -
  have "for_docs docs (init_counts, 0, []) =
     (case first_error docs of
        Some e \<Rightarrow> Inl e
      | None \<Rightarrow>
          Inr (counts_dict (\<lambda>i. count_of i docs),
               sum_list (map score_of (filter passes_filter docs)),
               map entry_of (filter passes_filter docs)))"
    using for_docs_eq [of docs "\<lambda>i. 0" 0 "[]"] by (simp add: init_counts_eq split: option.splits)
  moreover have "sum_list (map snd (counts_dict (\<lambda>i. count_of i docs))) =
      int (length (filter passes_filter docs))"
    using sum_counts [of docs] by (simp add: counts_dict_explicit)
  ultimately show ?thesis
    by (simp add: aggregate_def split: option.splits)
qed

subsection \<open>The result of the aggregation\<close>

lemma get_stats_configured:
  "db s = Some cs \<Longrightarrow>
   get_stats s =
     (aggregate (cs ''feedback''), s\<lparr>calls := calls s @ [GetDocuments ''feedback'']\<rparr>)"
  by (simp add: get_stats_def get_documents_def)

lemma aggregate_Inr:
  assumes "aggregate docs = Inr r"
  shows "r = \<lparr>counts = counts_dict (\<lambda>i. count_of i docs),
               total_votes = int (length (filter passes_filter docs)),
               total_score = sum_list (map score_of (filter passes_filter docs)),
               timeline = sort_key timestamp (map entry_of (filter passes_filter docs))\<rparr>"
  using assms by (simp add: aggregate_eq split: option.splits)

lemma aggregate_fields:
  assumes "aggregate docs = Inr r"
  shows "counts r = counts_dict (\<lambda>i. count_of i docs)"
    and "total_votes r = int (length (filter passes_filter docs))"
    and "total_score r = sum_list (map score_of (filter passes_filter docs))"
    and "timeline r = sort_key timestamp (map entry_of (filter passes_filter docs))"
  using aggregate_Inr [OF assms] by simp_all

lemma aggregate_processable:
  assumes "list_all processable docs"
  shows "aggregate docs = Inr \<lparr>counts = counts_dict (\<lambda>i. count_of i docs),
               total_votes = int (length (filter passes_filter docs)),
               total_score = sum_list (map score_of (filter passes_filter docs)),
               timeline = sort_key timestamp (map entry_of (filter passes_filter docs))\<rparr>"
  using assms by (simp add: aggregate_eq first_error_None [symmetric])

lemma passes_filter_score:
  "passes_filter d \<Longrightarrow> 1 \<le> score_of d \<and> score_of d \<le> 5"
  by (cases "coerced_score d") (simp_all add: passes_filter_def score_of_def)

subsection \<open>The example, evaluated\<close>

lemma isoformat_example: "isoformat example_time = ''2024-01-15T10:30:00+00:00''"
  by (simp add: isoformat_def isoformat_sep_def zero_pad_def format_offset_def example_time_def
      digits.simps Let_def)

lemmas int_of_str_eval =
  int_of_str_def int_of_codes_def to_ascii_def strip_def is_space_def parse_nat_def
  is_digit_def digit_val_def max_str_digits_def

lemma int_of_str_5: "int_of_str ''5'' = Inr 5"
  by (simp add: int_of_str_eval)

lemma int_of_str_abc: "int_of_str ''abc'' = Inl ValueError"
  by (simp add: int_of_str_eval)

lemma example_entries:
  "map entry_of (filter passes_filter example_docs) =
     [\<lparr>timestamp = ''2024-01-15T10:30:00+00:00'', score = 3\<rparr>,
      \<lparr>timestamp = ''2024-01-01T09:00:00'', score = 5\<rparr>]"
  by (simp add: example_docs_def passes_filter_def entry_of_def score_of_def timestamp_of_def
      coerced_score_def dict_get_def int_of_str_5 isoformat_example)

lemma example_counts:
  "counts_dict (\<lambda>i. count_of i example_docs) =
     [(''1'', 0), (''2'', 0), (''3'', 1), (''4'', 0), (''5'', 1)]"
  by (simp add: counts_dict_explicit count_of_def example_docs_def coerced_score_def dict_get_def
      int_of_str_5)

lemma example_valid:
  "length (filter passes_filter example_docs) = 2"
  "sum_list (map score_of (filter passes_filter example_docs)) = 8"
  by (simp_all add: example_docs_def passes_filter_def score_of_def coerced_score_def
      dict_get_def int_of_str_5)

lemma example_processable: "list_all processable example_docs"
  by (simp add: example_docs_def processable_def record_error_def timestamp_of_def
      coerced_score_def dict_get_def int_of_str_5)

lemma example_aggregate: "aggregate example_docs = Inr example_stats"
  by (simp add: aggregate_processable [OF example_processable] example_counts example_valid
      example_entries example_stats_def)

lemma example_db: "db example_server = Some example_collections"
  by (simp add: example_server_def)

lemma example_feedback: "example_collections ''feedback'' = example_docs"
  by (simp add: example_collections_def)

lemma example_get_stats: "fst (get_stats example_server) = Inr example_stats"
  by (simp add: get_stats_configured [OF example_db] example_feedback example_aggregate)

subsection \<open>Aggregating no record\<close>

text \<open>
  C3: aggregating an empty collection of records returns the counts
  \<^verbatim>\<open>{"1":0,"2":0,"3":0,"4":0,"5":0}\<close>, \<^verbatim>\<open>total_votes\<close> 0, \<^verbatim>\<open>total_score\<close> 0 and an
  empty timeline, and raises no error.
\<close>

theorem stats_of_empty_collection:
  assumes "db s = Some cs" and "cs ''feedback'' = []"
  shows "fst (get_stats s) =
     Inr \<lparr>counts = [(''1'', 0), (''2'', 0), (''3'', 0), (''4'', 0), (''5'', 0)],
          total_votes = 0, total_score = 0, timeline = []\<rparr>"
  using assms
  by (simp add: get_stats_configured aggregate_def init_counts_eq counts_dict_explicit)

theorem stats_of_empty_collection_witness:
  "fst (get_stats empty_server) =
     Inr \<lparr>counts = [(''1'', 0), (''2'', 0), (''3'', 0), (''4'', 0), (''5'', 0)],
          total_votes = 0, total_score = 0, timeline = []\<rparr>"
  using stats_of_empty_collection [of empty_server "\<lambda>c. []"]
  by (simp add: empty_server_def)

subsection \<open>The total number of votes\<close>



subsection \<open>The order of the timeline\<close>

text \<open>
  C5: for every collection of records, in whatever order they are retrieved, the timeline
  that \<^verbatim>\<open>get_stats\<close> returns is sorted in ascending order of its \<^verbatim>\<open>timestamp\<close>
  strings.
\<close>

theorem timeline_sorted:
  assumes "db s = Some cs" and "fst (get_stats s) = Inr r"
  shows "sorted (map timestamp (timeline r))"
proof -
  have "aggregate (cs ''feedback'') = Inr r"
    using assms by (simp add: get_stats_configured)
  note r = aggregate_fields [OF this]
  show ?thesis by (simp add: r)
qed

theorem timeline_sorted_witness:
  "sorted (map timestamp (timeline example_stats))"
  using timeline_sorted [OF example_db example_get_stats] .

subsection \<open>Invariants of the result\<close>

text \<open>
  C10: for every collection of records, the result of \<^verbatim>\<open>get_stats\<close> has a timeline
  as long as \<^verbatim>\<open>total_votes\<close>, every score in a timeline entry lies in 1..5, and
  \<^verbatim>\<open>total_score\<close> is the sum over \<open>s\<close> in 1..5 of \<open>s\<close> times
  \<^verbatim>\<open>counts[str(s)]\<close>.
\<close>

theorem stats_invariant:
  assumes "db s = Some cs" and "fst (get_stats s) = Inr r"
  shows "int (length (timeline r)) = total_votes r \<and>
         (\<forall>e \<in> set (timeline r). 1 \<le> score e \<and> score e \<le> 5) \<and>
         (\<exists>c1 c2 c3 c4 c5.
            counts r = [(''1'', c1), (''2'', c2), (''3'', c3), (''4'', c4), (''5'', c5)] \<and>
            total_score r = 1 * c1 + 2 * c2 + 3 * c3 + 4 * c4 + 5 * c5)"
proof -
  have "aggregate (cs ''feedback'') = Inr r"
    using assms by (simp add: get_stats_configured)
  note r = aggregate_fields [OF this]
  have len: "int (length (timeline r)) = total_votes r"
    by (simp add: r)
  have rng: "\<forall>e \<in> set (timeline r). 1 \<le> score e \<and> score e \<le> 5"
    using passes_filter_score by (auto simp add: r entry_of_def)
  have tot: "\<exists>c1 c2 c3 c4 c5.
            counts r = [(''1'', c1), (''2'', c2), (''3'', c3), (''4'', c4), (''5'', c5)] \<and>
            total_score r = 1 * c1 + 2 * c2 + 3 * c3 + 4 * c4 + 5 * c5"
    using sum_scores [of "cs ''feedback''"] by (simp add: r counts_dict_explicit)
  from len rng tot show ?thesis by blast
qed

theorem stats_invariant_witness:
  "int (length (timeline example_stats)) = total_votes example_stats \<and>
   list_all (\<lambda>e. 1 \<le> score e \<and> score e \<le> 5) (timeline example_stats) \<and>
   (\<exists>c1 c2 c3 c4 c5.
      counts example_stats = [(''1'', c1), (''2'', c2), (''3'', c3), (''4'', c4), (''5'', c5)] \<and>
      total_score example_stats = 1 * c1 + 2 * c2 + 3 * c3 + 4 * c4 + 5 * c5)"
  using stats_invariant [OF example_db example_get_stats]
  by (simp add: list_all_iff)

subsection \<open>Records that are skipped\<close>

lemma count_of_valid:
  assumes "1 \<le> i" and "i \<le> 5"
  shows "count_of i (filter passes_filter docs) = count_of i docs"
proof -
  have "filter (\<lambda>d. coerced_score d = Inr i) (filter passes_filter docs) =
        filter (\<lambda>d. coerced_score d = Inr i) docs"
    using assms by (induction docs) (auto simp add: passes_filter_def)
  then show ?thesis by (simp add: count_of_def)
qed

lemma counts_dict_valid:
  "counts_dict (\<lambda>i. count_of i (filter passes_filter docs)) = counts_dict (\<lambda>i. count_of i docs)"
  by (simp add: counts_dict_explicit count_of_valid)

lemma processable_filter: "list_all processable docs \<Longrightarrow> list_all processable (filter P docs)"
  by (induction docs) simp_all

lemma aggregate_filter:
  assumes "list_all processable docs"
  shows "aggregate docs = aggregate (filter passes_filter docs)"
  by (simp add: aggregate_processable [OF assms]
      aggregate_processable [OF processable_filter [OF assms]] counts_dict_valid)


lemma aggregate_Inl: "aggregate docs = Inl e \<longleftrightarrow> first_error docs = Some e"
  by (simp add: aggregate_eq split: option.splits)

lemma not_coercible_raises:
  "\<not> list_all coercible docs \<Longrightarrow> \<exists>e. first_error docs = Some e"
  using first_error_None [of docs] processable_coercible
  by (cases "first_error docs") (auto simp add: list_all_iff)

lemma missing_score_skipped:
  "map_of d ''score'' = None \<Longrightarrow> coercible d \<and> \<not> passes_filter d"
  by (simp add: coercible_def passes_filter_def coerced_score_def dict_get_def)

text \<open>
  C1, as amended: for every collection of records on which neither the coercion of a
  score by \<^verbatim>\<open>int\<close> nor the conversion of the timestamp of a valid record raises,
  \<^verbatim>\<open>get_stats\<close> skips each record whose score is missing or whose coerced score is
  outside 1..5, without counting it and without an error: the counts, \<^verbatim>\<open>total_score\<close>,
  \<^verbatim>\<open>total_votes\<close> and the timeline are those computed from the remaining valid
  records only. A record whose score is present and cannot be coerced is not skipped:
  the whole request fails with an exception.
\<close>

theorem invalid_scores_skipped:
  assumes "db s = Some cs"
  shows "(list_all processable (cs ''feedback'') \<longrightarrow>
            fst (get_stats s) = aggregate (filter passes_filter (cs ''feedback'')) \<and>
            fst (get_stats s) =
              Inr \<lparr>counts = counts_dict (\<lambda>i. count_of i (filter passes_filter (cs ''feedback''))),
                   total_votes = int (length (filter passes_filter (cs ''feedback''))),
                   total_score = sum_list (map score_of (filter passes_filter (cs ''feedback''))),
                   timeline = sort_key timestamp
                     (map entry_of (filter passes_filter (cs ''feedback'')))\<rparr>) \<and>
         (\<not> list_all coercible (cs ''feedback'') \<longrightarrow>
            (\<exists>e. fst (get_stats s) = Inl e \<and> first_error (cs ''feedback'') = Some e)) \<and>
         (\<forall>d. map_of d ''score'' = None \<longrightarrow> coercible d \<and> \<not> passes_filter d)"
proof -
  have g: "fst (get_stats s) = aggregate (cs ''feedback'')"
    by (simp add: get_stats_configured [OF assms])
  have a: "list_all processable (cs ''feedback'') \<longrightarrow>
            fst (get_stats s) = aggregate (filter passes_filter (cs ''feedback'')) \<and>
            fst (get_stats s) =
              Inr \<lparr>counts = counts_dict (\<lambda>i. count_of i (filter passes_filter (cs ''feedback''))),
                   total_votes = int (length (filter passes_filter (cs ''feedback''))),
                   total_score = sum_list (map score_of (filter passes_filter (cs ''feedback''))),
                   timeline = sort_key timestamp
                     (map entry_of (filter passes_filter (cs ''feedback'')))\<rparr>"
    using aggregate_filter [of "cs ''feedback''"]
    by (simp add: g aggregate_processable counts_dict_valid)
  have b: "\<not> list_all coercible (cs ''feedback'') \<longrightarrow>
            (\<exists>e. fst (get_stats s) = Inl e \<and> first_error (cs ''feedback'') = Some e)"
    using not_coercible_raises [of "cs ''feedback''"] by (auto simp add: g aggregate_Inl)
  from a b missing_score_skipped show ?thesis by blast
qed

text \<open>
  The claim as first stated fails: one record whose score is the text \<^verbatim>\<open>"abc"\<close>
  makes the whole request raise \<^verbatim>\<open>ValueError\<close>.
\<close>

theorem invalid_scores_skipped_counterexample:
  "fst (get_stats malformed_server) = Inl ValueError"
proof -
  have "first_error malformed_docs = Some ValueError"
    by (simp add: malformed_docs_def record_error_def timestamp_of_def coerced_score_def
        dict_get_def int_of_str_abc)
  then show ?thesis
    by (simp add: get_stats_def get_documents_def malformed_server_def aggregate_eq)
qed

theorem invalid_scores_skipped_witness:
  "list_all processable example_docs \<and>
   filter passes_filter example_docs =
     [[(''score'', PInt 3), (''created_at'', PDatetime example_time)],
      [(''score'', PStr ''5''), (''created_at'', PStr ''2024-01-01T09:00:00'')]] \<and>
   fst (get_stats example_server) = aggregate (filter passes_filter example_docs) \<and>
   fst (get_stats example_server) = Inr example_stats \<and>
   \<not> list_all coercible malformed_docs \<and>
   (\<exists>e. fst (get_stats malformed_server) = Inl e \<and> first_error malformed_docs = Some e)"
proof -
  have f: "filter passes_filter example_docs =
     [[(''score'', PInt 3), (''created_at'', PDatetime example_time)],
      [(''score'', PStr ''5''), (''created_at'', PStr ''2024-01-01T09:00:00'')]]"
    by (simp add: example_docs_def passes_filter_def coerced_score_def dict_get_def int_of_str_5)
  have m: "\<not> list_all coercible malformed_docs"
    by (simp add: malformed_docs_def coercible_def coerced_score_def dict_get_def int_of_str_abc)
  have dm: "db malformed_server = Some (\<lambda>c. malformed_docs)"
    by (simp add: malformed_server_def)
  show ?thesis
    using invalid_scores_skipped [OF example_db] invalid_scores_skipped [OF dm]
      example_processable m f
    by (simp add: example_feedback example_get_stats)
qed

subsection \<open>The timestamps of the timeline\<close>









subsection \<open>Vote ingestion\<close>

lemma post_feedback_invalid:
  "field = None \<or> (\<exists>v. field = Some v \<and> lax_int p v = None) \<or>
   (\<exists>v n. field = Some v \<and> lax_int p v = Some n \<and> (n < 1 \<or> 5 < n)) \<Longrightarrow>
   post_feedback p field now s = (Inl RequestValidationError, s)"
  by (auto simp add: post_feedback_def VoteRequest_validate_def)

lemma post_feedback_valid:
  assumes "lax_int p v = Some n" and "1 \<le> n" and "n \<le> 5" and "db s = Some cs"
  shows "post_feedback p (Some v) now s =
     (Inr acknowledgement,
      s\<lparr>db := Some (cs(''feedback'' := cs ''feedback'' @ [vote_record n now])),
        calls := calls s @ [CreateDocument ''feedback'' (vote_record n now)]\<rparr>)"
  using assms
  by (simp add: post_feedback_def VoteRequest_validate_def submit_feedback_def
      create_document_def vote_record_def acknowledgement_def Let_def)

lemma post_feedback_unconfigured:
  assumes "lax_int p v = Some n" and "1 \<le> n" and "n \<le> 5" and "db s = None"
  shows "post_feedback p (Some v) now s =
     (Inl (HTTPException 500 ''Database not configured''), s)"
  using assms
  by (simp add: post_feedback_def VoteRequest_validate_def submit_feedback_def not_configured_def)

lemma lax_int_cases:
  "lax_int p (JInt n) = Some n"
  "lax_int p (JBool b) = Some (if b then 1 else 0)"
  "lax_int p (JFloat m e) = float_as_int m e"
  "lax_int p (JStr x) = p x"
  "lax_int p JNull = None"
  "lax_int p JNonFinite = None"
  "lax_int p JArray = None"
  "lax_int p JObject = None"
  by (simp_all add: lax_int_def)

text \<open>
  C6, as amended: vote ingestion rejects with a validation error, before any call to the
  store and leaving the state unchanged, every request whose score is absent, is a value
  that the request model does not read as an integer (null, an array, an object, a float
  with a fractional part, a string it cannot read), or is read as an integer outside 1..5.
  It accepts every value that the request model reads as an integer in 1..5, which is an
  integer in 1..5 but also a boolean (\<^verbatim>\<open>true\<close> is 1), a float without a fractional
  part (\<^verbatim>\<open>3.0\<close>) and a string it can read (\<^verbatim>\<open>"3"\<close>): with the database configured the
  request succeeds and stores exactly one new record, with that integer as its score.
\<close>

theorem vote_ingestion:
  "(field = None \<or> (\<exists>v. field = Some v \<and> lax_int p v = None) \<or>
    (\<exists>v n. field = Some v \<and> lax_int p v = Some n \<and> (n < 1 \<or> 5 < n)) \<longrightarrow>
      post_feedback p field now s = (Inl RequestValidationError, s)) \<and>
   (\<forall>v n cs. field = Some v \<and> lax_int p v = Some n \<and> 1 \<le> n \<and> n \<le> 5 \<and> db s = Some cs \<longrightarrow>
      post_feedback p field now s =
        (Inr acknowledgement,
         s\<lparr>db := Some (cs(''feedback'' := cs ''feedback'' @ [vote_record n now])),
           calls := calls s @ [CreateDocument ''feedback'' (vote_record n now)]\<rparr>)) \<and>
   (\<forall>v n. field = Some v \<and> lax_int p v = Some n \<and> 1 \<le> n \<and> n \<le> 5 \<and> db s = None \<longrightarrow>
      post_feedback p field now s = (Inl (HTTPException 500 ''Database not configured''), s)) \<and>
   (\<forall>n. lax_int p (JInt n) = Some n) \<and>
   (\<forall>b. lax_int p (JBool b) = Some (if b then 1 else 0)) \<and>
   (\<forall>m e. lax_int p (JFloat m e) =
      (if 0 \<le> e then Some (m * 2 ^ nat e)
       else if m mod 2 ^ nat (- e) = 0 then Some (m div 2 ^ nat (- e)) else None)) \<and>
   (\<forall>x. lax_int p (JStr x) = p x) \<and>
   lax_int p JNull = None \<and> lax_int p JNonFinite = None \<and>
   lax_int p JArray = None \<and> lax_int p JObject = None"
  using post_feedback_invalid [of field p now s] post_feedback_valid [of p _ _ s _ now]
    post_feedback_unconfigured [of p _ _ s now]
  by (simp add: lax_int_cases float_as_int_def)

text \<open>
  The claim as first stated fails: the string \<^verbatim>\<open>"3"\<close>, the float \<^verbatim>\<open>3.0\<close> and the
  boolean \<^verbatim>\<open>true\<close> are not integers, and each is accepted and stored as a vote.
\<close>

theorem vote_ingestion_counterexample:
  "post_feedback example_reading (Some (JStr ''3'')) example_time empty_server =
     (Inr acknowledgement,
      \<lparr>db = Some ((\<lambda>c. [])(''feedback'' := [vote_record 3 example_time])),
       calls = [CreateDocument ''feedback'' (vote_record 3 example_time)]\<rparr>) \<and>
   post_feedback example_reading (Some (JFloat 3 0)) example_time empty_server =
     (Inr acknowledgement,
      \<lparr>db = Some ((\<lambda>c. [])(''feedback'' := [vote_record 3 example_time])),
       calls = [CreateDocument ''feedback'' (vote_record 3 example_time)]\<rparr>) \<and>
   post_feedback example_reading (Some (JBool True)) example_time empty_server =
     (Inr acknowledgement,
      \<lparr>db = Some ((\<lambda>c. [])(''feedback'' := [vote_record 1 example_time])),
       calls = [CreateDocument ''feedback'' (vote_record 1 example_time)]\<rparr>)"
  by (simp add: post_feedback_def VoteRequest_validate_def lax_int_def float_as_int_def
      example_reading_def submit_feedback_def create_document_def vote_record_def
      acknowledgement_def empty_server_def Let_def)

theorem vote_ingestion_witness:
  "post_feedback example_reading None example_time empty_server =
     (Inl RequestValidationError, empty_server) \<and>
   post_feedback example_reading (Some JNull) example_time empty_server =
     (Inl RequestValidationError, empty_server) \<and>
   post_feedback example_reading (Some (JFloat 7 (- 1))) example_time empty_server =
     (Inl RequestValidationError, empty_server) \<and>
   post_feedback example_reading (Some (JStr ''abc'')) example_time empty_server =
     (Inl RequestValidationError, empty_server) \<and>
   post_feedback example_reading (Some (JInt 6)) example_time empty_server =
     (Inl RequestValidationError, empty_server) \<and>
   post_feedback example_reading (Some (JInt 0)) example_time empty_server =
     (Inl RequestValidationError, empty_server) \<and>
   post_feedback example_reading (Some (JInt 4)) example_time empty_server =
     (Inr acknowledgement,
      \<lparr>db = Some ((\<lambda>c. [])(''feedback'' := [vote_record 4 example_time])),
       calls = [CreateDocument ''feedback'' (vote_record 4 example_time)]\<rparr>) \<and>
   post_feedback example_reading (Some (JInt 4)) example_time unconfigured_server =
     (Inl (HTTPException 500 ''Database not configured''), unconfigured_server)"
  using vote_ingestion [of None example_reading example_time empty_server]
    vote_ingestion [of "Some JNull" example_reading example_time empty_server]
    vote_ingestion [of "Some (JFloat 7 (- 1))" example_reading example_time empty_server]
    vote_ingestion [of "Some (JStr ''abc'')" example_reading example_time empty_server]
    vote_ingestion [of "Some (JInt 6)" example_reading example_time empty_server]
    vote_ingestion [of "Some (JInt 0)" example_reading example_time empty_server]
    vote_ingestion [of "Some (JInt 4)" example_reading example_time empty_server]
    vote_ingestion [of "Some (JInt 4)" example_reading example_time unconfigured_server]
  by (simp add: empty_server_def unconfigured_server_def example_reading_def)

subsection \<open>An unconfigured database\<close>

text \<open>
  C7: when the database handle is \<open>None\<close>, each of \<^verbatim>\<open>submit_feedback\<close>,
  \<^verbatim>\<open>get_stats\<close> and \<^verbatim>\<open>reset_votes\<close> fails with the error
  \<^verbatim>\<open>HTTPException(500, "Database not configured")\<close> before any read, write or
  delete: the state, with its record of the calls to the store, is unchanged. A request
  to \<^verbatim>\<open>POST /api/feedback\<close> fails as well, whatever its body, and changes nothing.
\<close>

theorem unconfigured_fails_closed:
  assumes "db s = None"
  shows "submit_feedback vote now s = (Inl (HTTPException 500 ''Database not configured''), s) \<and>
         get_stats s = (Inl (HTTPException 500 ''Database not configured''), s) \<and>
         reset_votes s = (Inl (HTTPException 500 ''Database not configured''), s) \<and>
         (\<exists>e. post_feedback p field now s = (Inl e, s))"
proof -
  have "\<exists>e. post_feedback p field now s = (Inl e, s)"
    using assms
    by (cases "VoteRequest_validate p field")
       (simp_all add: post_feedback_def submit_feedback_def)
  with assms show ?thesis
    by (simp add: submit_feedback_def get_stats_def reset_votes_def not_configured_def)
qed

theorem unconfigured_fails_closed_witness:
  "submit_feedback \<lparr>VoteRequest.score = 3\<rparr> example_time unconfigured_server =
     (Inl (HTTPException 500 ''Database not configured''), unconfigured_server) \<and>
   get_stats unconfigured_server =
     (Inl (HTTPException 500 ''Database not configured''), unconfigured_server) \<and>
   reset_votes unconfigured_server =
     (Inl (HTTPException 500 ''Database not configured''), unconfigured_server) \<and>
   (\<exists>e. post_feedback example_reading (Some (JInt 3)) example_time unconfigured_server =
          (Inl e, unconfigured_server)) \<and>
   calls unconfigured_server = []"
  using unconfigured_fails_closed
    [of unconfigured_server "\<lparr>VoteRequest.score = 3\<rparr>" example_time example_reading
      "Some (JInt 3)"]
  by (simp add: unconfigured_server_def)

subsection \<open>The scenario of three votes\<close>

lemma coerced_score_vote_record: "coerced_score (vote_record n t) = Inr n"
  by (simp add: coerced_score_def vote_record_def dict_get_def)

lemma timestamp_of_vote_record: "timestamp_of (vote_record n t) = Inr (isoformat t)"
  by (simp add: timestamp_of_def vote_record_def dict_get_def)

lemma entry_of_vote_record:
  "entry_of (vote_record n t) = \<lparr>timestamp = isoformat t, score = n\<rparr>"
  by (simp add: entry_of_def timestamp_of_vote_record score_of_def coerced_score_vote_record)

lemma aggregate_3_5_3:
  "aggregate [vote_record 3 ta, vote_record 5 tb, vote_record 3 tc] =
     Inr \<lparr>counts = [(''1'', 0), (''2'', 0), (''3'', 2), (''4'', 0), (''5'', 1)],
          total_votes = 3,
          total_score = 11,
          timeline = sort_key timestamp
            [\<lparr>timestamp = isoformat ta, score = 3\<rparr>,
             \<lparr>timestamp = isoformat tb, score = 5\<rparr>,
             \<lparr>timestamp = isoformat tc, score = 3\<rparr>]\<rparr>"
proof -
  let ?docs = "[vote_record 3 ta, vote_record 5 tb, vote_record 3 tc]"
  have c: "list_all processable ?docs"
    by (simp add: processable_def record_error_def coerced_score_vote_record
        timestamp_of_vote_record)
  have f: "filter passes_filter ?docs = ?docs"
    by (simp add: passes_filter_def coerced_score_vote_record)
  have n: "counts_dict (\<lambda>i. count_of i ?docs) =
      [(''1'', 0), (''2'', 0), (''3'', 2), (''4'', 0), (''5'', 1)]"
    by (simp add: counts_dict_explicit count_of_def coerced_score_vote_record)
  have t: "sum_list (map score_of ?docs) = 11"
    by (simp add: score_of_def coerced_score_vote_record)
  have e: "map entry_of ?docs = [\<lparr>timestamp = isoformat ta, score = 3\<rparr>,
             \<lparr>timestamp = isoformat tb, score = 5\<rparr>,
             \<lparr>timestamp = isoformat tc, score = 3\<rparr>]"
    by (simp add: entry_of_vote_record)
  show ?thesis
    unfolding aggregate_processable [OF c] f n t e by simp
qed

lemma three_votes_stored:
  assumes "db s0 = Some cs" and "cs ''feedback'' = []"
  shows "db (snd (post_feedback p (Some (JInt 3)) tc
           (snd (post_feedback p (Some (JInt 5)) tb
             (snd (post_feedback p (Some (JInt 3)) ta s0)))))) =
         Some (cs(''feedback'' := [vote_record 3 ta, vote_record 5 tb, vote_record 3 tc]))"
  using assms by (simp add: post_feedback_valid lax_int_cases)

text \<open>
  C2: on a store whose collection is empty, submitting the scores 3, 5 and 3 and then
  aggregating returns the counts \<^verbatim>\<open>{"1":0,"2":0,"3":2,"4":0,"5":1}\<close>,
  \<^verbatim>\<open>total_votes\<close> 3, \<^verbatim>\<open>total_score\<close> 11 and a timeline of exactly 3 entries in
  ascending order of timestamp.
\<close>

theorem scenario_3_5_3:
  assumes "db s0 = Some cs" and "cs ''feedback'' = []"
  shows "\<exists>r. fst (get_stats
                 (snd (post_feedback p (Some (JInt 3)) tc
                   (snd (post_feedback p (Some (JInt 5)) tb
                     (snd (post_feedback p (Some (JInt 3)) ta s0))))))) = Inr r \<and>
              counts r = [(''1'', 0), (''2'', 0), (''3'', 2), (''4'', 0), (''5'', 1)] \<and>
              total_votes r = 3 \<and>
              total_score r = 11 \<and>
              length (timeline r) = 3 \<and>
              sorted (map timestamp (timeline r)) \<and>
              timeline r = sort_key timestamp
                [\<lparr>timestamp = isoformat ta, score = 3\<rparr>,
                 \<lparr>timestamp = isoformat tb, score = 5\<rparr>,
                 \<lparr>timestamp = isoformat tc, score = 3\<rparr>]"
proof -
  let ?s3 = "snd (post_feedback p (Some (JInt 3)) tc
                   (snd (post_feedback p (Some (JInt 5)) tb
                     (snd (post_feedback p (Some (JInt 3)) ta s0)))))"
  let ?tl = "[\<lparr>timestamp = isoformat ta, score = 3\<rparr>,
                 \<lparr>timestamp = isoformat tb, score = 5\<rparr>,
                 \<lparr>timestamp = isoformat tc, score = 3\<rparr>]"
  have "fst (get_stats ?s3) =
     Inr \<lparr>counts = [(''1'', 0), (''2'', 0), (''3'', 2), (''4'', 0), (''5'', 1)],
          total_votes = 3,
          total_score = 11,
          timeline = sort_key timestamp ?tl\<rparr>"
    by (simp add: get_stats_configured [OF three_votes_stored [OF assms]] aggregate_3_5_3)
  moreover have "length (sort_key timestamp ?tl) = 3"
    by (simp only: length_sort) simp
  moreover have "sorted (map timestamp (sort_key timestamp ?tl))"
    by (rule sorted_sort_key)
  ultimately show ?thesis by simp
qed

lemma isoformat_times:
  "isoformat time_a = ''2024-03-09T08:05:07+00:00''"
  "isoformat time_b = ''2024-03-09T08:05:06.250000+00:00''"
  "isoformat time_c = ''2024-03-10T00:00:00+00:00''"
  by (simp_all add: isoformat_def isoformat_sep_def zero_pad_def format_offset_def
      time_a_def time_b_def time_c_def digits.simps Let_def)

theorem scenario_3_5_3_witness:
  "fst (get_stats
         (snd (post_feedback example_reading (Some (JInt 3)) time_c
           (snd (post_feedback example_reading (Some (JInt 5)) time_b
             (snd (post_feedback example_reading (Some (JInt 3)) time_a empty_server))))))) =
     Inr \<lparr>counts = [(''1'', 0), (''2'', 0), (''3'', 2), (''4'', 0), (''5'', 1)],
          total_votes = 3,
          total_score = 11,
          timeline = [\<lparr>timestamp = ''2024-03-09T08:05:06.250000+00:00'', score = 5\<rparr>,
                      \<lparr>timestamp = ''2024-03-09T08:05:07+00:00'', score = 3\<rparr>,
                      \<lparr>timestamp = ''2024-03-10T00:00:00+00:00'', score = 3\<rparr>]\<rparr>"
proof -
  have d: "db empty_server = Some (\<lambda>c. [])"
    by (simp add: empty_server_def)
  obtain r where r: "fst (get_stats
         (snd (post_feedback example_reading (Some (JInt 3)) time_c
           (snd (post_feedback example_reading (Some (JInt 5)) time_b
             (snd (post_feedback example_reading (Some (JInt 3)) time_a empty_server))))))) = Inr r"
     "counts r = [(''1'', 0), (''2'', 0), (''3'', 2), (''4'', 0), (''5'', 1)]"
     "total_votes r = 3" "total_score r = 11"
     "timeline r = sort_key timestamp
                [\<lparr>timestamp = isoformat time_a, score = 3\<rparr>,
                 \<lparr>timestamp = isoformat time_b, score = 5\<rparr>,
                 \<lparr>timestamp = isoformat time_c, score = 3\<rparr>]"
    using scenario_3_5_3 [OF d, where ta = time_a and tb = time_b and tc = time_c and p = example_reading] by blast
  have "timeline r = [\<lparr>timestamp = ''2024-03-09T08:05:06.250000+00:00'', score = 5\<rparr>,
                      \<lparr>timestamp = ''2024-03-09T08:05:07+00:00'', score = 3\<rparr>,
                      \<lparr>timestamp = ''2024-03-10T00:00:00+00:00'', score = 3\<rparr>]"
    by (simp add: r(5) isoformat_times)
  with r(1-4) show ?thesis by simp
qed

subsection \<open>Diagnostics\<close>




end
